theory Spec2Isabelle
  imports Main
begin

section \<open>The LOVE launcher (src/love.cpp) as a shallow embedding\<close>

text \<open>
  The launcher implements the four SDL3 main callbacks on top of an embedded Lua
  interpreter. C strings are modelled as \<open>string\<close> (without the terminating NUL), the
  argument vector \<open>(argc, argv)\<close> as a \<open>string list\<close> whose length is \<open>argc\<close>.
  Behaviour that is undefined in C++ (writing through a null pointer, flowing off the end
  of a value-returning function, an iterator past the end) and an error raised by the
  interpreter outside a protected call are values of type \<open>fault\<close>: a result \<open>Inl f\<close>
  means that the callback does not return to the host.
\<close>

datatype SDL_AppResult = SDL_APP_CONTINUE | SDL_APP_SUCCESS | SDL_APP_FAILURE

datatype fault =
    NullDeref            \<comment> \<open>a null pointer is dereferenced\<close>
  | IteratorPastEnd      \<comment> \<open>\<open>vector::insert\<close> at a position past \<open>end()\<close>\<close>
  | ApiViolation         \<comment> \<open>a Lua API call outside its documented precondition\<close>
  | LuaPanic             \<comment> \<open>a Lua error raised outside any protected call\<close>
  | MissingReturn        \<comment> \<open>control reaches the end of a non-void function\<close>

definition bindF :: "fault + 'a \<Rightarrow> ('a \<Rightarrow> fault + 'b) \<Rightarrow> fault + 'b" where
  "bindF m f = (case m of Inl e \<Rightarrow> Inl e | Inr x \<Rightarrow> f x)"

subsection \<open>Build configuration and process state\<close>

datatype platform = LOVE_WINDOWS | LOVE_MACOS | LOVE_IOS | LOVE_LINUX

text \<open>
  The preprocessor symbols the file is compiled under. \<open>LOVE_VERSION_STRING\<close> comes from
  \<open>common/version.h\<close>, \<open>LUA_VERSION_NUM\<close> from \<open>lua.h\<close>; both are parameters here.
\<close>

record build =
  LOVE_VERSION_STRING :: string
  target :: platform
  LOVE_LEGENDARY_APP_ARGV_HACK :: bool
  LOVE_LEGENDARY_CONSOLE_IO_HACK :: bool
  LUA_VERSION_NUM :: nat

text \<open>
  What the launcher itself does to the process: the text of its own \<open>printf\<close> calls in
  order, whether \<open>love_openConsole\<close> was called, the function-local \<open>static\<close> string
  \<open>dropfilestr\<close> of \<open>get_app_arguments\<close> (\<open>None\<close> until its initialiser has run), and
  the number of live \<open>malloc\<close> blocks and live interpreter instances.
\<close>

record process =
  out :: "string list"
  console_opened :: bool
  dropfilestr :: "string option"
  live_blocks :: nat
  live_states :: nat

definition printf :: "string \<Rightarrow> process \<Rightarrow> process" where
  "printf s w = w\<lparr>out := out w @ [s]\<rparr>"

definition NL :: string where
  "NL = [CHR 0x0A]"

subsection \<open>C string functions\<close>

text \<open>
  \<open>strcmp(a, b) == 0\<close> on NUL-terminated strings is equality of the strings.
  \<open>strncmp(a, b, n) == 0\<close> compares at most \<open>n\<close> characters: the strings agree on their
  first \<open>n\<close> characters (a string shorter than \<open>n\<close> must then equal the other one's
  prefix of the same length, terminator included).
\<close>

definition strcmp_eq :: "string \<Rightarrow> string \<Rightarrow> bool" where
  "strcmp_eq a b = (a = b)"

definition strncmp_eq :: "string \<Rightarrow> string \<Rightarrow> nat \<Rightarrow> bool" where
  "strncmp_eq a b n = (take n a = take n b)"

subsection \<open>The interpreter: values, tables, stack\<close>

text \<open>
  The part of the Lua C API the launcher calls, after the Lua reference manual. Tables
  live in a store and are passed by reference, so that a table left on the stack and the
  same table reachable from a global are one object. The stack is kept top first: index
  \<open>-1\<close> is the head of the list, index \<open>1\<close> its last element. C functions are
  named by their symbol. Metatables are not modelled.
\<close>

type_synonym ref = nat

datatype lkey = KInt int | KStr string

datatype lvalue =
    LNil
  | LBool bool
  | LNum int
  | LStr string
  | LCFunction string
  | LFunction nat
  | LTable ref
  | LThread ref

type_synonym ltable = "lkey \<rightharpoonup> lvalue"

record lua_State =
  stack :: "lvalue list"
  globals :: "string \<rightharpoonup> lvalue"
  tables :: "ref \<rightharpoonup> ltable"
  next_ref :: ref

definition rawset :: "('k \<rightharpoonup> lvalue) \<Rightarrow> 'k \<Rightarrow> lvalue \<Rightarrow> ('k \<rightharpoonup> lvalue)" where
  \<comment> \<open>storing nil removes the key\<close>
  "rawset t k v = (if v = LNil then t(k := None) else t(k \<mapsto> v))"

definition rawget :: "('k \<rightharpoonup> lvalue) \<Rightarrow> 'k \<Rightarrow> lvalue" where
  "rawget t k = (case t k of None \<Rightarrow> LNil | Some v \<Rightarrow> v)"

definition lua_gettop :: "lua_State \<Rightarrow> int" where
  "lua_gettop L = int (length (stack L))"

definition index2value :: "lua_State \<Rightarrow> int \<Rightarrow> lvalue option" where
  \<comment> \<open>an acceptable stack index is \<open>1..top\<close> or \<open>-top..-1\<close>\<close>
  "index2value L idx =
     (let top = lua_gettop L in
      if 1 \<le> idx \<and> idx \<le> top then Some (stack L ! nat (top - idx))
      else if idx < 0 \<and> - idx \<le> top then Some (stack L ! nat (- idx - 1))
      else None)"

definition push :: "lvalue \<Rightarrow> lua_State \<Rightarrow> fault + lua_State" where
  "push v L = Inr (L\<lparr>stack := v # stack L\<rparr>)"

definition lua_pushstring :: "string \<Rightarrow> lua_State \<Rightarrow> fault + lua_State" where
  "lua_pushstring s = push (LStr s)"

definition lua_pushboolean :: "int \<Rightarrow> lua_State \<Rightarrow> fault + lua_State" where
  "lua_pushboolean b = push (LBool (b \<noteq> 0))"

definition lua_pushcfunction :: "string \<Rightarrow> lua_State \<Rightarrow> fault + lua_State" where
  "lua_pushcfunction f = push (LCFunction f)"

definition lua_pushvalue :: "int \<Rightarrow> lua_State \<Rightarrow> fault + lua_State" where
  "lua_pushvalue idx L =
     (case index2value L idx of None \<Rightarrow> Inl ApiViolation | Some v \<Rightarrow> push v L)"

definition lua_settop :: "int \<Rightarrow> lua_State \<Rightarrow> fault + lua_State" where
  \<comment> \<open>\<open>idx \<ge> 0\<close>: the new top, filled with nil when it grows; \<open>idx < 0\<close>: relative to the top\<close>
  "lua_settop idx L =
     (let top = lua_gettop L in
      if 0 \<le> idx then
        (if idx \<le> top then Inr (L\<lparr>stack := drop (nat (top - idx)) (stack L)\<rparr>)
         else Inr (L\<lparr>stack := replicate (nat (idx - top)) LNil @ stack L\<rparr>))
      else if - (idx + 1) \<le> top then Inr (L\<lparr>stack := drop (nat (- (idx + 1))) (stack L)\<rparr>)
      else Inl ApiViolation)"

definition lua_pop :: "int \<Rightarrow> lua_State \<Rightarrow> fault + lua_State" where
  \<comment> \<open>the macro \<open>lua_settop(L, -(n)-1)\<close>\<close>
  "lua_pop n = lua_settop (- n - 1)"

definition lua_getglobal :: "string \<Rightarrow> lua_State \<Rightarrow> fault + lua_State" where
  "lua_getglobal name L = push (rawget (globals L) name) L"

definition lua_setglobal :: "string \<Rightarrow> lua_State \<Rightarrow> fault + lua_State" where
  "lua_setglobal name L =
     (case stack L of
        [] \<Rightarrow> Inl ApiViolation
      | v # rest \<Rightarrow> Inr (L\<lparr>stack := rest, globals := rawset (globals L) name v\<rparr>))"

definition lua_newtable :: "lua_State \<Rightarrow> fault + lua_State" where
  "lua_newtable L =
     Inr (L\<lparr>stack := LTable (next_ref L) # stack L,
            tables := (tables L)(next_ref L \<mapsto> Map.empty),
            next_ref := Suc (next_ref L)\<rparr>)"

definition lua_newthread :: "lua_State \<Rightarrow> fault + lua_State" where
  \<comment> \<open>the new thread shares globals and tables; its own stack is not needed here\<close>
  "lua_newthread L =
     Inr (L\<lparr>stack := LThread (next_ref L) # stack L, next_ref := Suc (next_ref L)\<rparr>)"

definition lua_getfield :: "int \<Rightarrow> string \<Rightarrow> lua_State \<Rightarrow> fault + lua_State" where
  \<comment> \<open>indexing a value that is not a table raises a Lua error\<close>
  "lua_getfield idx k L =
     (case index2value L idx of
        None \<Rightarrow> Inl ApiViolation
      | Some (LTable r) \<Rightarrow>
          (case tables L r of
             None \<Rightarrow> Inl ApiViolation
           | Some t \<Rightarrow> push (rawget t (KStr k)) L)
      | Some _ \<Rightarrow> Inl LuaPanic)"

definition lua_setfield :: "int \<Rightarrow> string \<Rightarrow> lua_State \<Rightarrow> fault + lua_State" where
  \<comment> \<open>\<open>t[k] = v\<close> for the table at \<open>idx\<close> and the value on top, which is popped\<close>
  "lua_setfield idx k L =
     (case stack L of
        [] \<Rightarrow> Inl ApiViolation
      | v # rest \<Rightarrow>
          (case index2value L idx of
             None \<Rightarrow> Inl ApiViolation
           | Some (LTable r) \<Rightarrow>
               (case tables L r of
                  None \<Rightarrow> Inl ApiViolation
                | Some t \<Rightarrow>
                    Inr (L\<lparr>stack := rest, tables := (tables L)(r \<mapsto> rawset t (KStr k) v)\<rparr>))
           | Some _ \<Rightarrow> Inl LuaPanic))"

definition lua_rawseti :: "int \<Rightarrow> int \<Rightarrow> lua_State \<Rightarrow> fault + lua_State" where
  \<comment> \<open>\<open>t[n] = v\<close> without metamethods; the value at \<open>idx\<close> must be a table\<close>
  "lua_rawseti idx n L =
     (case stack L of
        [] \<Rightarrow> Inl ApiViolation
      | v # rest \<Rightarrow>
          (case index2value L idx of
             Some (LTable r) \<Rightarrow>
               (case tables L r of
                  None \<Rightarrow> Inl ApiViolation
                | Some t \<Rightarrow>
                    Inr (L\<lparr>stack := rest, tables := (tables L)(r \<mapsto> rawset t (KInt n) v)\<rparr>))
           | _ \<Rightarrow> Inl ApiViolation))"

definition global_field :: "fault + lua_State \<Rightarrow> string \<Rightarrow> lkey \<Rightarrow> lvalue option" where
  \<comment> \<open>what a script reads as \<open>name[k]\<close> in the state a call returned; \<open>None\<close> when the
      call did not return or the global is not a table\<close>
  "global_field res name k =
     (case res of
        Inl _ \<Rightarrow> None
      | Inr L \<Rightarrow>
          (case globals L name of
             Some (LTable r) \<Rightarrow>
               (case tables L r of None \<Rightarrow> None | Some t \<Rightarrow> Some (rawget t k))
           | _ \<Rightarrow> None))"

fun run_steps :: "(lua_State \<Rightarrow> fault + lua_State) list \<Rightarrow> lua_State \<Rightarrow> fault + lua_State" where
  "run_steps [] L = Inr L"
| "run_steps (f # fs) L = bindF (f L) (run_steps fs)"

subsection \<open>Collaborators outside this file\<close>

text \<open>
  Everything the launcher calls and does not define: the runtime library's version and
  codename, the platform queries of the argument preprocessor, whether \<open>malloc\<close> and
  \<open>luaL_newstate\<close> succeed, and the interpreter running code the launcher cannot see.
  \<open>stdlibs L\<close> is the state in which \<open>luaL_openlibs\<close> leaves the globals and tables.
  \<open>lua_callfn f args L\<close> is the interpreter calling the value \<open>f\<close> on \<open>args\<close>: a Lua
  error, or the interpreter state afterwards with the values returned, first result first.
  \<open>luax_resume L\<close> is \<open>love::luax_resume(L, 0, &nres)\<close>: the status code, the value
  stored in \<open>nres\<close> and the state afterwards.
\<close>

record env =
  love_version :: string
  love_codename :: string
  macos_getLoveInResources :: string
  ios_getLoveInResources :: "bool \<Rightarrow> string \<times> bool"
  isatty_stdin :: bool
  macos_checkDropEvents :: string
  malloc_ok :: bool
  newstate_ok :: bool
  stdlibs :: "lua_State \<Rightarrow> fault + lua_State"
  lua_callfn :: "lvalue \<Rightarrow> lvalue list \<Rightarrow> lua_State \<Rightarrow> fault + lua_State \<times> lvalue list"
  luax_resume :: "lua_State \<Rightarrow> int \<times> int \<times> lua_State"

definition LUA_YIELD :: int where
  "LUA_YIELD = 1"

definition luaL_newstate :: "env \<Rightarrow> lua_State option" where
  \<comment> \<open>a null pointer when memory is exhausted, a fresh empty state otherwise\<close>
  "luaL_newstate e =
     (if newstate_ok e
      then Some \<lparr>stack = [], globals = Map.empty, tables = Map.empty, next_ref = 0\<rparr>
      else None)"

definition lua_call :: "env \<Rightarrow> nat \<Rightarrow> nat \<Rightarrow> lua_State \<Rightarrow> fault + lua_State" where
  \<comment> \<open>pops \<open>nargs\<close> arguments and the function below them, pushes exactly \<open>nresults\<close>
      results (padded with nil or truncated); the callee runs in its own frame and leaves
      the caller's stack below the function as it was\<close>
  "lua_call e nargs nresults L =
     (if length (stack L) < Suc nargs then Inl ApiViolation
      else
        let args = rev (take nargs (stack L));
            f = stack L ! nargs;
            below = drop (Suc nargs) (stack L)
        in bindF (lua_callfn e f args (L\<lparr>stack := below\<rparr>))
             (\<lambda>(L', res). Inr (L'\<lparr>stack := rev (take nresults (res @ replicate nresults LNil)) @ below\<rparr>)))"

definition luaL_openlibs :: "env \<Rightarrow> lua_State \<Rightarrow> fault + lua_State" where
  \<comment> \<open>opens the standard libraries; the stack is left as it was\<close>
  "luaL_openlibs e L = bindF (stdlibs e L) (\<lambda>L'. Inr (L'\<lparr>stack := stack L\<rparr>))"

text \<open>
  Modelled from the spec: \<open>love::Variant\<close> (common/Variant.h) and
  \<open>love::luax_pushvariant\<close> (common/runtime.h) are not part of this file. The spec's
  RestartValue is "a polymorphic payload (one of: absent, or an application-defined
  variant value)"; a default-constructed \<open>Variant\<close> is the absent one, which the
  interpreter sees as nil.
\<close>

datatype Variant = Absent | Present lvalue

text \<open>
  Modelled from the spec: \<open>love::luax_pushvariant\<close> (common/runtime.h) pushes the
  payload of a RestartValue onto the interpreter stack, nil for the absent one.
\<close>

definition luax_pushvariant :: "Variant \<Rightarrow> lua_State \<Rightarrow> fault + lua_State" where
  "luax_pushvariant v = push (case v of Absent \<Rightarrow> LNil | Present x \<Rightarrow> x)"

subsection \<open>\<open>get_app_arguments\<close> (lines 81 to 136)\<close>

fun copy_argv :: "nat \<Rightarrow> string list \<Rightarrow> string list" where
  \<comment> \<open>the loop of lines 84 to 89, \<open>i\<close> the index of the head of the remaining arguments\<close>
  "copy_argv i [] = []"
| "copy_argv i (a # as) =
     (if i = 0 \<or> \<not> strncmp_eq a ''-psn_'' 5 then a # copy_argv (Suc i) as
      else copy_argv (Suc i) as)"

definition vector_insert :: "nat \<Rightarrow> 'a \<Rightarrow> 'a list \<Rightarrow> fault + 'a list" where
  \<comment> \<open>\<open>v.insert(v.begin() + pos, x)\<close>\<close>
  "vector_insert pos x xs =
     (if pos \<le> length xs then Inr (take pos xs @ x # drop pos xs) else Inl IteratorPastEnd)"

definition getLoveInResources :: "build \<Rightarrow> env \<Rightarrow> string \<times> bool" where
  \<comment> \<open>lines 92 to 98: \<open>loveResourcesPath\<close> and \<open>fused\<close> (passed by reference on iOS)\<close>
  "getLoveInResources b e =
     (case target b of
        LOVE_MACOS \<Rightarrow> (macos_getLoveInResources e, True)
      | LOVE_IOS \<Rightarrow> ios_getLoveInResources e True
      | _ \<Rightarrow> ([], True))"

definition get_app_arguments ::
  "build \<Rightarrow> env \<Rightarrow> process \<Rightarrow> string list \<Rightarrow> fault + string list \<times> process" where
  "get_app_arguments b e w argv =
     (let temp_argv = copy_argv 0 argv;
          (loveResourcesPath, fused) = getLoveInResources b e
      in if loveResourcesPath \<noteq> [] then
           bindF (vector_insert 1 loveResourcesPath temp_argv) (\<lambda>t1.
             if fused then bindF (vector_insert 2 ''--fused'' t1) (\<lambda>t2. Inr (t2, w))
             else Inr (t1, w))
         else if target b = LOVE_MACOS then
           (if \<not> isatty_stdin e then
              let d = (case dropfilestr w of None \<Rightarrow> macos_checkDropEvents e | Some s \<Rightarrow> s);
                  w' = w\<lparr>dropfilestr := Some d\<rparr>
              in if d \<noteq> [] then bindF (vector_insert 1 d temp_argv) (\<lambda>t. Inr (t, w'))
                 else Inr (temp_argv, w')
            else Inr (temp_argv, w))
         else Inr (temp_argv, w))"

subsection \<open>\<open>love_preload\<close>, \<open>print_usage\<close>, \<open>app_globals\<close>\<close>

definition love_preload :: "string \<Rightarrow> string \<Rightarrow> lua_State \<Rightarrow> fault + lua_State" where
  "love_preload f name =
     run_steps
       [lua_getglobal ''package'',
        lua_getfield (-1) ''preload'',
        lua_pushcfunction f,
        lua_setfield (-2) name,
        lua_pop 2]"

definition usage_text :: string where
  "usage_text =
     ''LOVE is an *awesome* framework you can use to make 2D games in Lua'' @ NL @
     ''https://love2d.org'' @ NL @
     NL @
     ''usage:'' @ NL @
     ''    love --version                  prints LOVE version and quits'' @ NL @
     ''    love --help                     prints this message and quits'' @ NL @
     ''    love path/to/gamedir            runs the game from the given directory which contains a main.lua file'' @ NL @
     ''    love path/to/packagedgame.love  runs the packaged game from the provided .love file'' @ NL @
     ''    love path/to/file.lua           runs the game from the given .lua file'' @ NL"

definition print_usage :: "process \<Rightarrow> process" where
  "print_usage = printf usage_text"

record app_globals =
  g_L :: lua_State
  g_stackpos :: int

subsection \<open>\<open>SDL_AppInit\<close> (lines 170 to 290)\<close>

definition mismatch_text :: "build \<Rightarrow> env \<Rightarrow> string" where
  "mismatch_text b e =
     ''Version mismatch detected!'' @ NL @
     ''LOVE binary is version '' @ LOVE_VERSION_STRING b @ NL @
     ''LOVE library is version '' @ love_version e @ NL"

definition version_text :: "env \<Rightarrow> string" where
  "version_text e = ''LOVE '' @ love_version e @ '' ('' @ love_codename e @ '')'' @ NL"

definition set_arg_global :: "string list \<Rightarrow> lua_State \<Rightarrow> fault + lua_State" where
  \<comment> \<open>the block of lines 226 to 245\<close>
  "set_arg_global argv =
     run_steps
       ([lua_newtable]
        @ (if 0 < length argv then [lua_pushstring (argv ! 0), lua_rawseti (-2) (-2)] else [])
        @ [lua_pushstring ''embedded boot.lua'', lua_rawseti (-2) (-1)]
        @ concat (map (\<lambda>i. [lua_pushstring (argv ! i), lua_rawseti (-2) (int i)])
                      [1..<length argv])
        @ [lua_setglobal ''arg''])"

definition SDL_AppInit_modules ::
  "build \<Rightarrow> env \<Rightarrow> process \<Rightarrow> string list \<Rightarrow> Variant
     \<Rightarrow> fault + lua_State \<times> Variant \<times> process" where
  \<comment> \<open>lines 199 to 263: from the allocation of \<open>g\<close> to the clearing of \<open>restartvalue\<close>;
      the table returned by \<open>require "love"\<close> is still on the stack\<close>
  "SDL_AppInit_modules b e w argv restartvalue =
     (let g_ok = malloc_ok e;
          w1 = (if g_ok then w\<lparr>live_blocks := Suc (live_blocks w)\<rparr> else w);
          Lp = luaL_newstate e;
          w2 = (if Lp = None then w1 else w1\<lparr>live_states := Suc (live_states w1)\<rparr>)
      in if \<not> g_ok then Inl NullDeref
         else case Lp of
           None \<Rightarrow> Inl NullDeref
         | Some L0 \<Rightarrow>
             bindF (run_steps
                      [luaL_openlibs e,
                       love_preload ''luaopen_love_jitsetup'' ''love.jitsetup'',
                       lua_getglobal ''require'',
                       lua_pushstring ''love.jitsetup'',
                       lua_call e 1 0] L0) (\<lambda>L1.
             bindF (if LOVE_LEGENDARY_APP_ARGV_HACK b then get_app_arguments b e w2 argv
                    else Inr (argv, w2)) (\<lambda>(argv', w3).
             bindF (run_steps
                      [love_preload ''luaopen_love'' ''love'',
                       set_arg_global argv',
                       lua_getglobal ''require'',
                       lua_pushstring ''love'',
                       lua_call e 1 1,
                       lua_pushboolean 1,
                       lua_setfield (-2) ''_exe'',
                       luax_pushvariant restartvalue,
                       lua_setfield (-2) ''restart''] L1) (\<lambda>L2.
             Inr (L2, Absent, w3)))))"

definition SDL_AppInit_entry :: "env \<Rightarrow> lua_State \<Rightarrow> fault + lua_State" where
  \<comment> \<open>lines 265 to 275: the boot function and its coroutine\<close>
  "SDL_AppInit_entry e =
     run_steps
       [lua_pop 1,
        lua_getglobal ''require'',
        lua_pushstring ''love.boot'',
        lua_call e 1 1,
        lua_newthread,
        lua_pushvalue (-2)]"

definition SDL_AppInit ::
  "build \<Rightarrow> env \<Rightarrow> process \<Rightarrow> string list
     \<Rightarrow> fault + SDL_AppResult \<times> app_globals option \<times> process" where
  \<comment> \<open>the second component is \<open>*appstate\<close>, null unless line 288 is reached;
      \<open>restartvalue\<close> is the local of line 179, default-constructed on every call\<close>
  "SDL_AppInit b e w argv =
     (let argc = length argv;
          restartvalue = Absent
      in if \<not> strcmp_eq (LOVE_VERSION_STRING b) (love_version e) then
           Inr (SDL_APP_FAILURE, None, printf (mismatch_text b e) w)
         else if argc > 1 \<and> strcmp_eq (argv ! 1) ''--version'' then
           Inr (SDL_APP_SUCCESS, None,
                printf (version_text e)
                  (if LOVE_LEGENDARY_CONSOLE_IO_HACK b then w\<lparr>console_opened := True\<rparr> else w))
         else if argc > 1 \<and> strcmp_eq (argv ! 1) ''--help'' then
           Inr (SDL_APP_SUCCESS, None, print_usage w)
         else
           bindF (SDL_AppInit_modules b e w argv restartvalue) (\<lambda>(L2, restartvalue', w3).
           bindF (SDL_AppInit_entry e L2) (\<lambda>L3.
           Inr (SDL_APP_CONTINUE, Some \<lparr>g_L = L3, g_stackpos = lua_gettop L3\<rparr>, w3))))"

subsection \<open>\<open>SDL_AppIterate\<close>, \<open>SDL_AppEvent\<close>, \<open>SDL_AppQuit\<close> (lines 292 to 318)\<close>

definition SDL_AppIterate ::
  "build \<Rightarrow> env \<Rightarrow> process \<Rightarrow> app_globals \<Rightarrow> fault + SDL_AppResult \<times> app_globals \<times> process" where
  "SDL_AppIterate b e w g =
     (case luax_resume e (g_L g) of
        (status, nres, L') \<Rightarrow>
          if status = LUA_YIELD then
            bindF (lua_pop (if 504 \<le> LUA_VERSION_NUM b then nres
                            else lua_gettop L' - g_stackpos g) L')
              (\<lambda>L''. Inr (SDL_APP_CONTINUE, g\<lparr>g_L := L''\<rparr>, w))
          else Inr (SDL_APP_SUCCESS, g\<lparr>g_L := L'\<rparr>, w))"

typedecl SDL_Event

definition SDL_AppEvent :: "app_globals option \<Rightarrow> SDL_Event \<Rightarrow> fault + SDL_AppResult" where
  \<comment> \<open>the body is empty: no return statement is executed\<close>
  "SDL_AppEvent appstate event = Inl MissingReturn"

definition SDL_AppQuit :: "process \<Rightarrow> app_globals option \<Rightarrow> SDL_AppResult \<Rightarrow> fault + process" where
  "SDL_AppQuit w appstate result =
     (case appstate of
        None \<Rightarrow> Inl NullDeref
      | Some g \<Rightarrow> Inr (w\<lparr>live_states := live_states w - 1, live_blocks := live_blocks w - 1\<rparr>))"

subsection \<open>A concrete configuration\<close>

text \<open>
  A Linux build with matching versions and a small interpreter: the standard libraries
  provide \<open>package.preload\<close> and \<open>require\<close>; \<open>require "love"\<close> returns a new table,
  \<open>require "love.boot"\<close> a Lua function, any other call returns nothing; a resume
  yields one value. The theorems below are instantiated on it.
\<close>

definition sample_build :: build where
  "sample_build =
     \<lparr>LOVE_VERSION_STRING = ''12.0'', target = LOVE_LINUX,
      LOVE_LEGENDARY_APP_ARGV_HACK = False, LOVE_LEGENDARY_CONSOLE_IO_HACK = False,
      LUA_VERSION_NUM = 501\<rparr>"

definition sample_stdlibs :: "lua_State \<Rightarrow> fault + lua_State" where
  "sample_stdlibs L =
     Inr (L\<lparr>globals := [''package'' \<mapsto> LTable 0, ''require'' \<mapsto> LCFunction ''require''],
            tables := [0 \<mapsto> [KStr ''preload'' \<mapsto> LTable 1], 1 \<mapsto> Map.empty],
            next_ref := 2\<rparr>)"

definition sample_callfn ::
  "lvalue \<Rightarrow> lvalue list \<Rightarrow> lua_State \<Rightarrow> fault + lua_State \<times> lvalue list" where
  "sample_callfn f args L =
     (if f = LCFunction ''require'' \<and> args = [LStr ''love''] then
        Inr (L\<lparr>tables := (tables L)(next_ref L \<mapsto> Map.empty), next_ref := Suc (next_ref L)\<rparr>,
             [LTable (next_ref L)])
      else if f = LCFunction ''require'' \<and> args = [LStr ''love.boot''] then
        Inr (L, [LFunction 0])
      else Inr (L, []))"

definition sample_resume :: "lua_State \<Rightarrow> int \<times> int \<times> lua_State" where
  "sample_resume L = (LUA_YIELD, 1, L\<lparr>stack := LNum 7 # stack L\<rparr>)"

definition sample_env :: env where
  "sample_env =
     \<lparr>love_version = ''12.0'', love_codename = ''Bestest Friend'',
      macos_getLoveInResources = [], ios_getLoveInResources = (\<lambda>fused. ([], fused)),
      isatty_stdin = True, macos_checkDropEvents = [],
      malloc_ok = True, newstate_ok = True,
      stdlibs = sample_stdlibs, lua_callfn = sample_callfn, luax_resume = sample_resume\<rparr>"

definition sample_process :: process where
  "sample_process =
     \<lparr>out = [], console_opened = False, dropfilestr = None, live_blocks = 0, live_states = 0\<rparr>"

definition sample_globals :: app_globals where
  \<comment> \<open>an application state as \<open>SDL_AppInit\<close> leaves it: the boot function, the
      thread and the copy of the boot function on the stack, the marker at depth 3\<close>
  "sample_globals =
     \<lparr>g_L = \<lparr>stack = [LFunction 0, LThread 4, LFunction 0],
              globals = [''package'' \<mapsto> LTable 0, ''require'' \<mapsto> LCFunction ''require''],
              tables = [0 \<mapsto> [KStr ''preload'' \<mapsto> LTable 1], 1 \<mapsto> Map.empty],
              next_ref = 5\<rparr>,
      g_stackpos = 3\<rparr>"

definition sample_resume_error :: "lua_State \<Rightarrow> int \<times> int \<times> lua_State" where
  \<comment> \<open>the script raises an error: status \<open>LUA_ERRRUN\<close>, the message on top of the stack\<close>
  "sample_resume_error L = (2, 0, L\<lparr>stack := LStr ''main.lua:1: boom'' # stack L\<rparr>)"

definition sample_resume_extra :: "lua_State \<Rightarrow> int \<times> int \<times> lua_State" where
  \<comment> \<open>a yield that reports one value and leaves two values above the previous top\<close>
  "sample_resume_extra L = (LUA_YIELD, 1, L\<lparr>stack := LNum 8 # LNum 7 # stack L\<rparr>)"

section \<open>Properties\<close>

subsection \<open>Auxiliary facts\<close>

lemma bindF_Inr [simp]: "bindF (Inr x) f = f x"
  by (simp add: bindF_def)

lemma bindF_Inl [simp]: "bindF (Inl x) f = Inl x"
  by (simp add: bindF_def)

lemma bindF_eq_Inr: "bindF m f = Inr y \<longleftrightarrow> (\<exists>x. m = Inr x \<and> f x = Inr y)"
  by (cases m) simp_all


lemma copy_argv_Suc: "copy_argv (Suc i) as = filter (\<lambda>s. \<not> strncmp_eq s ''-psn_'' 5) as"
  by (induction as arbitrary: i) auto

lemma push_rawseti_step:
  assumes "stack L = LTable r # rest" and "tables L r = Some t"
  shows "run_steps (lua_pushstring s # lua_rawseti (-2) n # fs) L =
         run_steps fs (L\<lparr>tables := (tables L)(r \<mapsto> t(KInt n \<mapsto> LStr s))\<rparr>)"
proof -
  have same: "L\<lparr>stack := LTable r # rest, tables := X\<rparr> = L\<lparr>tables := X\<rparr>" for X
    using assms(1) by (intro lua_State.equality) simp_all
  show ?thesis
    using assms
    by (simp add: lua_pushstring_def push_def lua_rawseti_def index2value_def lua_gettop_def
        rawset_def same)
qed

lemma arg_loop:
  assumes "stack L = LTable r # rest" and "tables L r = Some t"
  shows "run_steps (concat (map (\<lambda>i. [lua_pushstring (f i), lua_rawseti (-2) (int i)]) js) @ fs) L =
         run_steps fs
           (L\<lparr>tables := (tables L)(r \<mapsto> foldl (\<lambda>t i. t(KInt (int i) \<mapsto> LStr (f i))) t js)\<rparr>)"
  using assms
proof (induction js arbitrary: L t)
  case Nil
  then have eq: "(tables L)(r \<mapsto> t) = tables L"
    by (simp add: fun_upd_idem)
  show ?case by (simp add: eq)
next
  case (Cons j js)
  let ?body = "\<lambda>i. [lua_pushstring (f i), lua_rawseti (-2) (int i)]"
  let ?upd = "\<lambda>t i. t(KInt (int i) \<mapsto> LStr (f i))"
  let ?L1 = "L\<lparr>tables := (tables L)(r \<mapsto> ?upd t j)\<rparr>"
  have st: "stack ?L1 = LTable r # rest" using Cons.prems by simp
  have tb: "tables ?L1 r = Some (?upd t j)" by simp
  have "run_steps (concat (map ?body (j # js)) @ fs) L =
        run_steps (concat (map ?body js) @ fs) ?L1"
    using push_rawseti_step [OF Cons.prems] by simp
  also have "\<dots> = run_steps fs (?L1\<lparr>tables := (tables ?L1)(r \<mapsto> foldl ?upd (?upd t j) js)\<rparr>)"
    by (rule Cons.IH [OF st tb])
  also have "?L1\<lparr>tables := (tables ?L1)(r \<mapsto> foldl ?upd (?upd t j) js)\<rparr> =
             L\<lparr>tables := (tables L)(r \<mapsto> foldl ?upd t (j # js))\<rparr>"
    by simp
  finally show ?case .
qed

lemma foldl_arg_table:
  "foldl (\<lambda>t i. t(KInt (int i) \<mapsto> LStr (f i))) t js k =
     (case k of
        KInt n \<Rightarrow> if n \<in> int ` set js then Some (LStr (f (nat n))) else t k
      | KStr s \<Rightarrow> t k)"
proof (induction js arbitrary: t rule: rev_induct)
  case Nil
  then show ?case by (simp split: lkey.splits)
next
  case (snoc j js)
  then show ?case by (auto split: lkey.splits)
qed

lemma setglobal_table:
  assumes "stack L = LTable r # rest"
  shows "run_steps [lua_setglobal name] L =
         Inr (L\<lparr>stack := rest, globals := (globals L)(name \<mapsto> LTable r)\<rparr>)"
  using assms by (simp add: lua_setglobal_def rawset_def)

lemma arg_table_pointwise:
  "foldl (\<lambda>t i. t(KInt (int i) \<mapsto> LStr (argv ! i)))
     ((if argv \<noteq> [] then [KInt (- 2) \<mapsto> LStr (argv ! 0)] else Map.empty)
        (KInt (- 1) \<mapsto> LStr ''embedded boot.lua''))
     [1..<length argv] =
   (\<lambda>k. case k of
      KInt n \<Rightarrow>
        if n = - 1 then Some (LStr ''embedded boot.lua'')
        else if n = - 2 \<and> argv \<noteq> [] then Some (LStr (argv ! 0))
        else if 1 \<le> n \<and> n < int (length argv) then Some (LStr (argv ! nat n))
        else None
    | KStr s \<Rightarrow> None)"
proof (rule ext)
  fix k
  have mem: "n \<in> int ` set [1..<length argv] \<longleftrightarrow> 1 \<le> n \<and> n < int (length argv)" for n
  proof
    assume "n \<in> int ` set [1..<length argv]"
    then show "1 \<le> n \<and> n < int (length argv)" by auto
  next
    assume "1 \<le> n \<and> n < int (length argv)"
    then have "nat n \<in> set [1..<length argv]" and "int (nat n) = n" by auto
    then show "n \<in> int ` set [1..<length argv]" by (metis imageI)
  qed
  show "foldl (\<lambda>t i. t(KInt (int i) \<mapsto> LStr (argv ! i)))
          ((if argv \<noteq> [] then [KInt (- 2) \<mapsto> LStr (argv ! 0)] else Map.empty)
             (KInt (- 1) \<mapsto> LStr ''embedded boot.lua''))
          [1..<length argv] k =
        (case k of
           KInt n \<Rightarrow>
             if n = - 1 then Some (LStr ''embedded boot.lua'')
             else if n = - 2 \<and> argv \<noteq> [] then Some (LStr (argv ! 0))
             else if 1 \<le> n \<and> n < int (length argv) then Some (LStr (argv ! nat n))
             else None
         | KStr s \<Rightarrow> None)"
    unfolding foldl_arg_table mem
    by (cases k) auto
qed


lemma init_marker_is_depth:
  assumes "SDL_AppInit b e w argv = Inr (r, Some g, w')"
  shows "r = SDL_APP_CONTINUE \<and> g_stackpos g = lua_gettop (g_L g)"
  using assms
  by (auto simp: SDL_AppInit_def Let_def bindF_eq_Inr split: if_splits)

subsection \<open>The version gate and the early exits of \<open>SDL_AppInit\<close>\<close>

text \<open>
  C6: when the compile-time and the runtime version strings differ, \<open>SDL_AppInit\<close> prints
  one message holding both strings and returns \<open>SDL_APP_FAILURE\<close>; \<open>*appstate\<close> stays
  null and the process is otherwise as before: nothing was allocated, no interpreter was
  created, whatever the arguments are.
\<close>

theorem version_gate_failure:
  assumes "LOVE_VERSION_STRING b \<noteq> love_version e"
  shows "SDL_AppInit b e w argv =
           Inr (SDL_APP_FAILURE, None,
                w\<lparr>out := out w @
                   [''Version mismatch detected!'' @ NL @
                    ''LOVE binary is version '' @ LOVE_VERSION_STRING b @ NL @
                    ''LOVE library is version '' @ love_version e @ NL]\<rparr>)"
  using assms by (simp add: SDL_AppInit_def strcmp_eq_def printf_def mismatch_text_def)

theorem version_gate_failure_witness:
  "LOVE_VERSION_STRING (sample_build\<lparr>LOVE_VERSION_STRING := ''11.5''\<rparr>) \<noteq> love_version sample_env
   \<and> SDL_AppInit (sample_build\<lparr>LOVE_VERSION_STRING := ''11.5''\<rparr>) sample_env sample_process
        [''love'', ''game''] =
       Inr (SDL_APP_FAILURE, None,
            sample_process\<lparr>out :=
              [''Version mismatch detected!'' @ NL @
               ''LOVE binary is version 11.5'' @ NL @
               ''LOVE library is version 12.0'' @ NL]\<rparr>)"
proof -
  have h: "LOVE_VERSION_STRING (sample_build\<lparr>LOVE_VERSION_STRING := ''11.5''\<rparr>)
             \<noteq> love_version sample_env"
    by (simp add: sample_env_def)
  show ?thesis
    using h version_gate_failure [OF h, of sample_process "[''love'', ''game'']"]
    by (simp add: sample_env_def sample_process_def)
qed

text \<open>
  C3, as stated, fails: the version gate runs before the flags are looked at, so with
  mismatched versions \<open>--version\<close> prints the mismatch message and returns
  \<open>SDL_APP_FAILURE\<close>.
\<close>

theorem version_flag_counterexample:
  "SDL_AppInit (sample_build\<lparr>LOVE_VERSION_STRING := ''11.5''\<rparr>) sample_env sample_process
     [''love'', ''--version''] =
   Inr (SDL_APP_FAILURE, None,
        sample_process\<lparr>out :=
          [''Version mismatch detected!'' @ NL @
           ''LOVE binary is version 11.5'' @ NL @
           ''LOVE library is version 12.0'' @ NL]\<rparr>)"
  by (simp add: SDL_AppInit_def strcmp_eq_def printf_def mismatch_text_def sample_build_def
      sample_env_def sample_process_def)

text \<open>
  C3, amended: when the first user argument is \<open>--version\<close> or \<open>--help\<close>,
  \<open>SDL_AppInit\<close> never creates an interpreter and leaves \<open>*appstate\<close> null. If the
  version strings match it prints \<open>LOVE <runtime version> (<codename>)\<close> for
  \<open>--version\<close> (after opening the console where the build asks for it) or the fixed
  usage text for \<open>--help\<close>, and returns \<open>SDL_APP_SUCCESS\<close>; if they differ it prints the
  mismatch message and returns \<open>SDL_APP_FAILURE\<close>.
\<close>

theorem early_exit_flags:
  assumes "1 < length argv"
      and "argv ! 1 = ''--version'' \<or> argv ! 1 = ''--help''"
  shows "SDL_AppInit b e w argv =
           (if LOVE_VERSION_STRING b = love_version e then
              Inr (SDL_APP_SUCCESS, None,
                   w\<lparr>out := out w @
                        [if argv ! 1 = ''--version''
                         then ''LOVE '' @ love_version e @ '' ('' @ love_codename e @ '')'' @ NL
                         else usage_text],
                     console_opened := console_opened w \<or>
                        (argv ! 1 = ''--version'' \<and> LOVE_LEGENDARY_CONSOLE_IO_HACK b)\<rparr>)
            else
              Inr (SDL_APP_FAILURE, None, w\<lparr>out := out w @ [mismatch_text b e]\<rparr>))"
  using assms
  by (auto simp: SDL_AppInit_def strcmp_eq_def printf_def version_text_def print_usage_def)

theorem early_exit_flags_witness:
  "1 < length [''love'', ''--help'']
   \<and> SDL_AppInit sample_build sample_env sample_process [''love'', ''--help''] =
       Inr (SDL_APP_SUCCESS, None, sample_process\<lparr>out := [usage_text]\<rparr>)"
  using early_exit_flags [of "[''love'', ''--help'']" sample_build sample_env sample_process]
  by (simp add: sample_build_def sample_env_def sample_process_def)

text \<open>
  C9, as stated, fails: neither the result of \<open>malloc\<close> nor that of \<open>luaL_newstate\<close> is
  tested. When \<open>malloc\<close> returns null, line 203 writes through the null pointer; no
  status is returned.
\<close>

theorem malloc_failure_counterexample:
  "SDL_AppInit sample_build (sample_env\<lparr>malloc_ok := False\<rparr>) sample_process
     [''love'', ''game''] = Inl NullDeref"
  by (simp add: SDL_AppInit_def SDL_AppInit_modules_def strcmp_eq_def sample_build_def
      sample_env_def)

text \<open>
  C9, amended: \<open>SDL_AppInit\<close> does not test the results of its native allocations. Past
  the version gate and the two flags, a failed \<open>malloc\<close> makes line 203 store through a
  null \<open>g\<close>, and a failed \<open>luaL_newstate\<close> makes line 204 hand a null state to
  \<open>luaL_openlibs\<close>: in both cases the behaviour is undefined and no status is returned.
\<close>

theorem init_unchecked_allocation:
  assumes "LOVE_VERSION_STRING b = love_version e"
      and "\<not> (1 < length argv \<and> (argv ! 1 = ''--version'' \<or> argv ! 1 = ''--help''))"
      and "\<not> malloc_ok e \<or> \<not> newstate_ok e"
  shows "SDL_AppInit b e w argv = Inl NullDeref"
  using assms
  by (auto simp: SDL_AppInit_def SDL_AppInit_modules_def strcmp_eq_def luaL_newstate_def Let_def)

theorem init_unchecked_allocation_witness:
  "LOVE_VERSION_STRING sample_build = love_version (sample_env\<lparr>newstate_ok := False\<rparr>)
   \<and> SDL_AppInit sample_build (sample_env\<lparr>newstate_ok := False\<rparr>) sample_process [''love''] =
       Inl NullDeref"
  using init_unchecked_allocation [of sample_build "sample_env\<lparr>newstate_ok := False\<rparr>"
      "[''love'']" sample_process]
  by (simp add: sample_build_def sample_env_def)

subsection \<open>The argument preprocessor\<close>

text \<open>
  C4, as stated, fails: the test of line 87 exempts index 0 only, so an argument with the
  prefix \<open>-psn_\<close> is dropped at every later position, not just as the first user
  argument.
\<close>

theorem psn_later_position_counterexample:
  "get_app_arguments (sample_build\<lparr>LOVE_LEGENDARY_APP_ARGV_HACK := True\<rparr>) sample_env
     sample_process [''love'', ''game'', ''-psn_0_1''] =
   Inr ([''love'', ''game''], sample_process)"
  by (simp add: get_app_arguments_def getLoveInResources_def sample_build_def sample_env_def
      strncmp_eq_def)

text \<open>
  C4, amended: the copy loop of the Argument Preprocessor keeps the argument at index 0
  unconditionally and drops every other argument whose first five characters are
  \<open>-psn_\<close>, at whatever position it appears; all other arguments are kept in order.
\<close>

theorem copy_argv_drops_every_psn:
  "copy_argv 0 argv =
     (case argv of [] \<Rightarrow> [] | a # rest \<Rightarrow> a # filter (\<lambda>s. take 5 s \<noteq> ''-psn_'') rest)"
  by (cases argv) (simp_all add: copy_argv_Suc strncmp_eq_def)

theorem copy_argv_drops_every_psn_witness:
  "copy_argv 0 [''-psn_love'', ''-psn_0_1'', ''game'', ''-psn_2'', ''-ps''] =
     [''-psn_love'', ''game'', ''-ps'']"
  using copy_argv_drops_every_psn [of "[''-psn_love'', ''-psn_0_1'', ''game'', ''-psn_2'', ''-ps'']"]
  by simp

text \<open>
  C7, as stated, fails: the copy loop runs before the insertion and drops the \<open>-psn_\<close>
  arguments, so with a bundled package found the returned vector can be shorter than the
  one passed in, and user arguments of the input are missing from it.
\<close>

theorem insertion_after_psn_drop_counterexample:
  "get_app_arguments (sample_build\<lparr>target := LOVE_MACOS\<rparr>)
     (sample_env\<lparr>macos_getLoveInResources := ''game.love''\<rparr>) sample_process
     [''love'', ''-psn_1'', ''-psn_2'', ''-psn_3''] =
   Inr ([''love'', ''game.love'', ''--fused''], sample_process)
   \<and> length [''love'', ''game.love'', ''--fused'']
       < length [''love'', ''-psn_1'', ''-psn_2'', ''-psn_3'']"
  by (simp add: get_app_arguments_def getLoveInResources_def sample_build_def sample_env_def
      strncmp_eq_def vector_insert_def)

text \<open>
  C7, amended: for an argument vector with at least the executable path,
  \<open>get_app_arguments\<close> returns a vector that starts with the executable path, followed
  by the inserted arguments (none, one or two), followed by the user arguments that the
  copy loop kept (those without the prefix \<open>-psn_\<close>), in their order. The executable
  path is never dropped, and an insertion makes the vector left by the copy loop, not the
  vector passed in, longer by exactly 1 or 2.
\<close>

theorem get_app_arguments_shape:
  assumes "argv = a # rest"
  shows "\<exists>ins w'. get_app_arguments b e w argv = Inr (a # ins @ tl (copy_argv 0 argv), w')
           \<and> length ins \<le> 2
           \<and> copy_argv 0 argv = a # filter (\<lambda>s. \<not> strncmp_eq s ''-psn_'' 5) rest"
proof -
  let ?keep = "filter (\<lambda>s. \<not> strncmp_eq s ''-psn_'' 5) rest"
  have pre: "copy_argv 0 argv = a # ?keep"
    using assms by (simp add: copy_argv_Suc)
  obtain p fused where res: "getLoveInResources b e = (p, fused)"
    by (cases "getLoveInResources b e")
  let ?d = "case dropfilestr w of None \<Rightarrow> macos_checkDropEvents e | Some s \<Rightarrow> s"
  consider (two) "p \<noteq> []" "fused"
    | (one) "p \<noteq> []" "\<not> fused"
    | (dropped) "p = []" "target b = LOVE_MACOS" "\<not> isatty_stdin e" "?d \<noteq> []"
    | (nodrop) "p = []" "target b = LOVE_MACOS" "\<not> isatty_stdin e" "?d = []"
    | (tty) "p = []" "target b = LOVE_MACOS" "isatty_stdin e"
    | (none) "p = []" "target b \<noteq> LOVE_MACOS"
    by blast
  then show ?thesis
  proof cases
    case two
    then have "get_app_arguments b e w argv = Inr (a # [p, ''--fused''] @ tl (copy_argv 0 argv), w)"
      by (simp add: get_app_arguments_def res pre vector_insert_def)
    then show ?thesis using pre by (intro exI [of _ "[p, ''--fused'']"] exI [of _ w]) simp
  next
    case one
    then have "get_app_arguments b e w argv = Inr (a # [p] @ tl (copy_argv 0 argv), w)"
      by (simp add: get_app_arguments_def res pre vector_insert_def)
    then show ?thesis using pre by (intro exI [of _ "[p]"] exI [of _ w]) simp
  next
    case dropped
    then have "get_app_arguments b e w argv =
                 Inr (a # [?d] @ tl (copy_argv 0 argv), w\<lparr>dropfilestr := Some ?d\<rparr>)"
      by (simp add: get_app_arguments_def res pre vector_insert_def Let_def)
    then show ?thesis
      using pre by (intro exI [of _ "[?d]"] exI [of _ "w\<lparr>dropfilestr := Some ?d\<rparr>"]) simp
  next
    case nodrop
    then have "get_app_arguments b e w argv =
                 Inr (a # [] @ tl (copy_argv 0 argv), w\<lparr>dropfilestr := Some ?d\<rparr>)"
      by (simp add: get_app_arguments_def res pre Let_def)
    then show ?thesis
      using pre by (intro exI [of _ "[]"] exI [of _ "w\<lparr>dropfilestr := Some ?d\<rparr>"]) simp
  next
    case tty
    then have "get_app_arguments b e w argv = Inr (a # [] @ tl (copy_argv 0 argv), w)"
      by (simp add: get_app_arguments_def res pre)
    then show ?thesis using pre by (intro exI [of _ "[]"] exI [of _ w]) simp
  next
    case none
    then have "get_app_arguments b e w argv = Inr (a # [] @ tl (copy_argv 0 argv), w)"
      by (simp add: get_app_arguments_def res pre)
    then show ?thesis using pre by (intro exI [of _ "[]"] exI [of _ w]) simp
  qed
qed

theorem get_app_arguments_shape_witness:
  "(\<exists>ins w'. get_app_arguments (sample_build\<lparr>target := LOVE_MACOS\<rparr>)
                (sample_env\<lparr>macos_getLoveInResources := ''game.love''\<rparr>) sample_process
                [''love'', ''-psn_0_1'', ''a'', ''b''] =
              Inr (''love'' # ins @ [''a'', ''b''], w')
            \<and> length ins \<le> 2)
   \<and> get_app_arguments (sample_build\<lparr>target := LOVE_MACOS\<rparr>)
        (sample_env\<lparr>macos_getLoveInResources := ''game.love''\<rparr>) sample_process
        [''love'', ''-psn_0_1'', ''a'', ''b''] =
       Inr ([''love'', ''game.love'', ''--fused'', ''a'', ''b''], sample_process)"
proof
  show "\<exists>ins w'. get_app_arguments (sample_build\<lparr>target := LOVE_MACOS\<rparr>)
                (sample_env\<lparr>macos_getLoveInResources := ''game.love''\<rparr>) sample_process
                [''love'', ''-psn_0_1'', ''a'', ''b''] =
              Inr (''love'' # ins @ [''a'', ''b''], w')
            \<and> length ins \<le> 2"
    using get_app_arguments_shape [of "[''love'', ''-psn_0_1'', ''a'', ''b'']" "''love''"
        "[''-psn_0_1'', ''a'', ''b'']" "sample_build\<lparr>target := LOVE_MACOS\<rparr>"
        "sample_env\<lparr>macos_getLoveInResources := ''game.love''\<rparr>" sample_process]
    by (simp add: strncmp_eq_def)
  show "get_app_arguments (sample_build\<lparr>target := LOVE_MACOS\<rparr>)
        (sample_env\<lparr>macos_getLoveInResources := ''game.love''\<rparr>) sample_process
        [''love'', ''-psn_0_1'', ''a'', ''b''] =
       Inr ([''love'', ''game.love'', ''--fused'', ''a'', ''b''], sample_process)"
    by (simp add: get_app_arguments_def getLoveInResources_def sample_build_def sample_env_def
        strncmp_eq_def vector_insert_def)
qed

subsection \<open>The global \<open>arg\<close> table\<close>

text \<open>
  C5, as stated, fails: the synthetic marker is stored at index \<open>-1\<close> and nothing is
  stored at index 0, which reads as nil.
\<close>

theorem arg_index_zero_counterexample:
  "global_field (set_arg_global [''love'', ''game''] (g_L sample_globals)) ''arg'' (KInt 0) =
     Some LNil
   \<and> global_field (set_arg_global [''love'', ''game''] (g_L sample_globals)) ''arg'' (KInt (- 1)) =
     Some (LStr ''embedded boot.lua'')
   \<and> global_field (set_arg_global [''love'', ''game''] (g_L sample_globals)) ''arg'' (KInt (- 2)) =
     Some (LStr ''love'')"
  by (simp add: global_field_def set_arg_global_def sample_globals_def lua_newtable_def
      lua_pushstring_def push_def lua_rawseti_def index2value_def lua_gettop_def rawset_def
      rawget_def lua_setglobal_def)

text \<open>
  C5, amended: the block of lines 226 to 245 always succeeds, leaves the stack as it was
  and binds the global \<open>arg\<close> to a new table that holds exactly: the marker
  \<open>embedded boot.lua\<close> at index \<open>-1\<close>, the executable path at index \<open>-2\<close> (when
  there is one), and the user arguments at the indices \<open>1, 2, \<dots>\<close> in their order;
  index 0 and every other key are absent.
\<close>

theorem arg_table_contents:
  "\<exists>L'. set_arg_global argv L = Inr L'
     \<and> stack L' = stack L
     \<and> globals L' ''arg'' = Some (LTable (next_ref L))
     \<and> tables L' (next_ref L) =
         Some (\<lambda>k. case k of
                 KInt n \<Rightarrow>
                   if n = - 1 then Some (LStr ''embedded boot.lua'')
                   else if n = - 2 \<and> argv \<noteq> [] then Some (LStr (argv ! 0))
                   else if 1 \<le> n \<and> n < int (length argv) then Some (LStr (argv ! nat n))
                   else None
               | KStr s \<Rightarrow> None)"
proof -
  let ?r = "next_ref L"
  let ?body = "\<lambda>i. [lua_pushstring (argv ! i), lua_rawseti (-2) (int i)]"
  let ?upd = "\<lambda>t i. t(KInt (int i) \<mapsto> LStr (argv ! i))"
  let ?loop = "concat (map ?body [1..<length argv]) @ [lua_setglobal ''arg'']"
  let ?t0 = "if argv \<noteq> [] then [KInt (- 2) \<mapsto> LStr (argv ! 0)] else (Map.empty :: ltable)"
  let ?t1 = "?t0(KInt (- 1) \<mapsto> LStr ''embedded boot.lua'')"
  let ?L0 = "L\<lparr>stack := LTable ?r # stack L, tables := (tables L)(?r \<mapsto> Map.empty),
               next_ref := Suc ?r\<rparr>"
  let ?La = "?L0\<lparr>tables := (tables ?L0)(?r \<mapsto> ?t0)\<rparr>"
  let ?Lb = "?La\<lparr>tables := (tables ?La)(?r \<mapsto> ?t1)\<rparr>"
  let ?Lc = "?Lb\<lparr>tables := (tables ?Lb)(?r \<mapsto> foldl ?upd ?t1 [1..<length argv])\<rparr>"
  have st0: "stack ?L0 = LTable ?r # stack L" and tb0: "tables ?L0 ?r = Some Map.empty"
    by simp_all
  have sta: "stack ?La = LTable ?r # stack L" and tba: "tables ?La ?r = Some ?t0"
    by simp_all
  have stb: "stack ?Lb = LTable ?r # stack L" and tbb: "tables ?Lb ?r = Some ?t1"
    by simp_all
  have stc: "stack ?Lc = LTable ?r # stack L"
    by simp
  have first: "run_steps ((if 0 < length argv
                            then [lua_pushstring (argv ! 0), lua_rawseti (-2) (-2)] else []) @ fs) ?L0 =
               run_steps fs ?La" for fs
  proof (cases "argv = []")
    case True
    then have a: "?La = ?L0"
      by (intro lua_State.equality) simp_all
    have b: "(if 0 < length argv
              then [lua_pushstring (argv ! 0), lua_rawseti (-2) (-2)] else []) @ fs = fs"
      using True by simp
    show ?thesis by (simp only: a b)
  next
    case False
    then show ?thesis
      using push_rawseti_step [OF st0 tb0, of "argv ! 0" "- 2" fs] by simp
  qed
  have "set_arg_global argv L =
        run_steps ((if 0 < length argv
                    then [lua_pushstring (argv ! 0), lua_rawseti (-2) (-2)] else []) @
                   (lua_pushstring ''embedded boot.lua'' # lua_rawseti (-2) (-1) # ?loop)) ?L0"
    by (simp add: set_arg_global_def lua_newtable_def)
  also have "\<dots> = run_steps (lua_pushstring ''embedded boot.lua'' # lua_rawseti (-2) (-1) # ?loop) ?La"
    by (rule first)
  also have "\<dots> = run_steps ?loop ?Lb"
    by (rule push_rawseti_step [OF sta tba])
  also have "\<dots> = run_steps [lua_setglobal ''arg''] ?Lc"
    by (rule arg_loop [OF stb tbb])
  also have "\<dots> = Inr (?Lc\<lparr>stack := stack L, globals := (globals ?Lc)(''arg'' \<mapsto> LTable ?r)\<rparr>)"
    by (rule setglobal_table [OF stc])
  finally have res: "set_arg_global argv L =
      Inr (?Lc\<lparr>stack := stack L, globals := (globals ?Lc)(''arg'' \<mapsto> LTable ?r)\<rparr>)" .
  let ?Lf = "?Lc\<lparr>stack := stack L, globals := (globals ?Lc)(''arg'' \<mapsto> LTable ?r)\<rparr>"
  have "tables ?Lf ?r = Some (foldl ?upd ?t1 [1..<length argv])"
    by simp
  then have tbl: "tables ?Lf ?r =
      Some (\<lambda>k. case k of
              KInt n \<Rightarrow>
                if n = - 1 then Some (LStr ''embedded boot.lua'')
                else if n = - 2 \<and> argv \<noteq> [] then Some (LStr (argv ! 0))
                else if 1 \<le> n \<and> n < int (length argv) then Some (LStr (argv ! nat n))
                else None
            | KStr s \<Rightarrow> None)"
    by (simp only: arg_table_pointwise)
  have stk: "stack ?Lf = stack L" and glb: "globals ?Lf ''arg'' = Some (LTable ?r)"
    by simp_all
  show ?thesis
    using res stk glb tbl by (intro exI [of _ ?Lf] conjI)
qed

theorem arg_table_contents_witness:
  "\<exists>L'. set_arg_global [''love'', ''game''] (g_L sample_globals) = Inr L'
     \<and> globals L' ''arg'' = Some (LTable 5)
     \<and> (\<exists>t. tables L' 5 = Some t
           \<and> t (KInt (- 2)) = Some (LStr ''love'')
           \<and> t (KInt (- 1)) = Some (LStr ''embedded boot.lua'')
           \<and> t (KInt 0) = None
           \<and> t (KInt 1) = Some (LStr ''game'')
           \<and> t (KInt 2) = None)"
  using arg_table_contents [of "[''love'', ''game'']" "g_L sample_globals"]
  by (auto simp: sample_globals_def)

subsection \<open>The restart value\<close>



subsection \<open>\<open>SDL_AppIterate\<close> and \<open>SDL_AppEvent\<close>\<close>

text \<open>
  C1, as stated, fails: a resume that ends with an error status makes
  \<open>SDL_AppIterate\<close> return \<open>SDL_APP_SUCCESS\<close>; the error message stays on the
  interpreter stack and nothing is printed.
\<close>

theorem iterate_error_counterexample:
  "SDL_AppIterate sample_build (sample_env\<lparr>luax_resume := sample_resume_error\<rparr>) sample_process
     sample_globals =
   Inr (SDL_APP_SUCCESS,
        sample_globals\<lparr>g_L := (g_L sample_globals)
          \<lparr>stack := LStr ''main.lua:1: boom'' # stack (g_L sample_globals)\<rparr>\<rparr>,
        sample_process)"
  by (simp add: SDL_AppIterate_def sample_env_def sample_resume_error_def LUA_YIELD_def)

text \<open>
  C1, amended: for every call in which the resume result is not a yield, be it normal
  completion or an unhandled error, \<open>SDL_AppIterate\<close> returns \<open>SDL_APP_SUCCESS\<close>,
  leaves the interpreter as the resume left it and prints nothing.
\<close>

theorem iterate_not_yield:
  assumes "luax_resume e (g_L g) = (status, nres, L')"
      and "status \<noteq> LUA_YIELD"
  shows "SDL_AppIterate b e w g = Inr (SDL_APP_SUCCESS, g\<lparr>g_L := L'\<rparr>, w)"
  using assms by (simp add: SDL_AppIterate_def)

theorem iterate_not_yield_witness:
  "luax_resume (sample_env\<lparr>luax_resume := sample_resume_error\<rparr>) (g_L sample_globals) =
     (2, 0, (g_L sample_globals)\<lparr>stack := LStr ''main.lua:1: boom'' # stack (g_L sample_globals)\<rparr>)
   \<and> 2 \<noteq> LUA_YIELD
   \<and> SDL_AppIterate (sample_build\<lparr>LUA_VERSION_NUM := 504\<rparr>)
        (sample_env\<lparr>luax_resume := sample_resume_error\<rparr>) sample_process sample_globals =
       Inr (SDL_APP_SUCCESS,
            sample_globals\<lparr>g_L := (g_L sample_globals)
              \<lparr>stack := LStr ''main.lua:1: boom'' # stack (g_L sample_globals)\<rparr>\<rparr>,
            sample_process)"
proof -
  have r: "luax_resume (sample_env\<lparr>luax_resume := sample_resume_error\<rparr>) (g_L sample_globals) =
     (2, 0, (g_L sample_globals)\<lparr>stack := LStr ''main.lua:1: boom'' # stack (g_L sample_globals)\<rparr>)"
    by (simp add: sample_resume_error_def)
  have n: "(2::int) \<noteq> LUA_YIELD"
    by (simp add: LUA_YIELD_def)
  show ?thesis
    using r n iterate_not_yield [OF r n, of "sample_build\<lparr>LUA_VERSION_NUM := 504\<rparr>" sample_process]
    by simp
qed

text \<open>
  C8, as stated, fails: built against Lua 5.4 or later, \<open>SDL_AppIterate\<close> pops the
  \<open>nres\<close> values the resume reported and never reads the recorded marker. A yield that
  reports one value and leaves two above the marker ends with the stack one above the
  recorded depth.
\<close>

theorem iterate_marker_unused_counterexample:
  "SDL_AppIterate (sample_build\<lparr>LUA_VERSION_NUM := 504\<rparr>)
     (sample_env\<lparr>luax_resume := sample_resume_extra\<rparr>) sample_process sample_globals =
   Inr (SDL_APP_CONTINUE,
        sample_globals\<lparr>g_L := (g_L sample_globals)
          \<lparr>stack := LNum 7 # stack (g_L sample_globals)\<rparr>\<rparr>,
        sample_process)
   \<and> lua_gettop ((g_L sample_globals)\<lparr>stack := LNum 7 # stack (g_L sample_globals)\<rparr>) = 4
   \<and> g_stackpos sample_globals = 3"
  by (simp add: SDL_AppIterate_def sample_env_def sample_resume_extra_def lua_pop_def
      lua_settop_def lua_gettop_def sample_globals_def)

text \<open>
  C8, amended: when the resume yields, \<open>SDL_AppIterate\<close> pops \<open>n\<close> values and returns
  \<open>SDL_APP_CONTINUE\<close>, where \<open>n\<close> is the count \<open>nres\<close> reported by the resume in a
  build against Lua 5.4 or later, and the stack depth minus the recorded marker in an
  older build. For \<open>0 \<le> n \<le> depth\<close> exactly the top \<open>n\<close> values are removed and
  everything below is unchanged; in the older build the stack then is at the recorded
  depth.
\<close>

theorem iterate_yield:
  assumes "luax_resume e (g_L g) = (LUA_YIELD, nres, L')"
      and "n = (if 504 \<le> LUA_VERSION_NUM b then nres else lua_gettop L' - g_stackpos g)"
      and "0 \<le> n" and "n \<le> lua_gettop L'"
  shows "SDL_AppIterate b e w g =
           Inr (SDL_APP_CONTINUE, g\<lparr>g_L := L'\<lparr>stack := drop (nat n) (stack L')\<rparr>\<rparr>, w)
         \<and> (LUA_VERSION_NUM b < 504 \<longrightarrow>
              lua_gettop (L'\<lparr>stack := drop (nat n) (stack L')\<rparr>) = g_stackpos g)"
  using assms
  by (auto simp: SDL_AppIterate_def lua_pop_def lua_settop_def lua_gettop_def Let_def)

theorem iterate_yield_witness:
  "luax_resume sample_env (g_L sample_globals) =
     (LUA_YIELD, 1, (g_L sample_globals)\<lparr>stack := LNum 7 # stack (g_L sample_globals)\<rparr>)
   \<and> SDL_AppIterate sample_build sample_env sample_process sample_globals =
       Inr (SDL_APP_CONTINUE, sample_globals, sample_process)
   \<and> lua_gettop (g_L sample_globals) = g_stackpos sample_globals"
proof -
  let ?L' = "(g_L sample_globals)\<lparr>stack := LNum 7 # stack (g_L sample_globals)\<rparr>"
  have r: "luax_resume sample_env (g_L sample_globals) = (LUA_YIELD, 1, ?L')"
    by (simp add: sample_env_def sample_resume_def)
  have n: "(1::int) = (if 504 \<le> LUA_VERSION_NUM sample_build then 1
                        else lua_gettop ?L' - g_stackpos sample_globals)"
    by (simp add: sample_build_def sample_globals_def lua_gettop_def)
  have lo: "(0::int) \<le> 1" by simp
  have hi: "(1::int) \<le> lua_gettop ?L'"
    by (simp add: sample_globals_def lua_gettop_def)
  show ?thesis
    using r iterate_yield [OF r n lo hi, of sample_process]
    by (simp add: sample_build_def sample_globals_def lua_gettop_def)
qed

text \<open>
  C10, evaluated on the code: the body of \<open>SDL_AppEvent\<close> is empty, so for every state
  and every event control reaches the end of a function declared to return
  \<open>SDL_AppResult\<close> without a return statement; no defined value is returned.
\<close>

theorem event_returns_nothing:
  "SDL_AppEvent appstate event = Inl MissingReturn"
  by (simp add: SDL_AppEvent_def)

end
